theory Spec2Isabelle
  imports Complex_Main "HOL-Library.Word" "HOL-Library.Multiset"
begin

section \<open>Python values and exceptions\<close>

text \<open>
  The two source files are \<^verbatim>\<open>backend/behavior_model.py\<close> (class \<^verbatim>\<open>BehaviorModel\<close>)
  and \<^verbatim>\<open>backend/ai_engine.py\<close> (\<^verbatim>\<open>generate_plan\<close>, \<^verbatim>\<open>generate_nudges\<close>).

  A Python \<^verbatim>\<open>float\<close> is a \<open>pyfloat\<close>: a finite value, which is the real number it
  denotes, or one of \<^verbatim>\<open>inf\<close>, \<^verbatim>\<open>-inf\<close> and \<^verbatim>\<open>nan\<close>. Arithmetic on finite values is
  exact: the rounding error of the binary representation is outside the model. A
  value that the code has clamped is finite and is a \<open>real\<close>.

  An exception is a value: a function that can raise returns \<open>py_exception + 'a\<close>, with
  \<open>Inl\<close> for the exception. The constructors stand for classes deriving from
  \<^verbatim>\<open>Exception\<close>; \<open>ConnectionFailure\<close> is what the database driver raises when the server
  cannot be reached.
\<close>

datatype py_exception =
    KeyError
  | ValueError
  | TypeError
  | OverflowError
  | ConnectionFailure
  | OtherException string

datatype pyfloat = Finite real | PosInf | NegInf | NaN

text \<open>
  Addition and subtraction of floats, and division of a float by a literal other than
  zero (the code divides by \<open>20.0\<close> and by \<open>100.0\<close>). An operation on \<^verbatim>\<open>nan\<close>, and the
  difference of two equal infinities, is \<^verbatim>\<open>nan\<close>.
\<close>

fun float_add :: "pyfloat \<Rightarrow> pyfloat \<Rightarrow> pyfloat" where
  "float_add (Finite a) (Finite b) = Finite (a + b)"
| "float_add NaN y = NaN"
| "float_add x NaN = NaN"
| "float_add PosInf NegInf = NaN"
| "float_add NegInf PosInf = NaN"
| "float_add PosInf y = PosInf"
| "float_add x PosInf = PosInf"
| "float_add NegInf y = NegInf"
| "float_add x NegInf = NegInf"

fun float_sub :: "pyfloat \<Rightarrow> pyfloat \<Rightarrow> pyfloat" where
  "float_sub (Finite a) (Finite b) = Finite (a - b)"
| "float_sub NaN y = NaN"
| "float_sub x NaN = NaN"
| "float_sub PosInf PosInf = NaN"
| "float_sub NegInf NegInf = NaN"
| "float_sub PosInf y = PosInf"
| "float_sub x PosInf = NegInf"
| "float_sub NegInf y = NegInf"
| "float_sub x NegInf = PosInf"

fun float_div :: "pyfloat \<Rightarrow> real \<Rightarrow> pyfloat" where
  "float_div (Finite a) c = Finite (a / c)"
| "float_div PosInf c = (if 0 < c then PosInf else NegInf)"
| "float_div NegInf c = (if 0 < c then NegInf else PosInf)"
| "float_div NaN c = NaN"

text \<open>
  A value decoded from a stored document. Integers are stored in at most 64 bits, so
  \<open>PyInt\<close> carries a 64-bit word read as a signed number. \<open>PyObject\<close> is any other
  decoded value that has no numeric conversion (a sub-document, an array, a datetime,
  an object id).
\<close>

datatype pyval =
    PyNone
  | PyBool bool
  | PyInt "64 word"
  | PyFloat pyfloat
  | PyStr string
  | PyObject

text \<open>
  \<^verbatim>\<open>float(v)\<close> and \<^verbatim>\<open>int(v)\<close>. What the built-in conversions accept as the text of a
  number is a parameter: \<open>str_float s\<close> (\<open>str_int s\<close>) is \<open>Some x\<close> when
  \<^verbatim>\<open>float(s)\<close> (\<^verbatim>\<open>int(s)\<close>) returns \<open>x\<close> and \<open>None\<close> when it raises \<^verbatim>\<open>ValueError\<close>;
  \<^verbatim>\<open>float\<close> accepts texts such as \<^verbatim>\<open>nan\<close> and \<^verbatim>\<open>inf\<close>. \<^verbatim>\<open>int\<close> of a finite float
  truncates towards zero; it raises \<^verbatim>\<open>ValueError\<close> on \<^verbatim>\<open>nan\<close> and \<^verbatim>\<open>OverflowError\<close> on
  an infinity.
\<close>

definition py_trunc :: "real \<Rightarrow> int" where
  "py_trunc x = (if 0 \<le> x then \<lfloor>x\<rfloor> else \<lceil>x\<rceil>)"

fun py_float :: "(string \<Rightarrow> pyfloat option) \<Rightarrow> pyval \<Rightarrow> py_exception + pyfloat" where
  "py_float str_float PyNone = Inl TypeError"
| "py_float str_float (PyBool b) = Inr (Finite (if b then 1 else 0))"
| "py_float str_float (PyInt i) = Inr (Finite (real_of_int (sint i)))"
| "py_float str_float (PyFloat x) = Inr x"
| "py_float str_float (PyStr s) =
     (case str_float s of None \<Rightarrow> Inl ValueError | Some x \<Rightarrow> Inr x)"
| "py_float str_float PyObject = Inl TypeError"

fun py_int :: "(string \<Rightarrow> int option) \<Rightarrow> pyval \<Rightarrow> py_exception + int" where
  "py_int str_int PyNone = Inl TypeError"
| "py_int str_int (PyBool b) = Inr (if b then 1 else 0)"
| "py_int str_int (PyInt i) = Inr (sint i)"
| "py_int str_int (PyFloat (Finite x)) = Inr (py_trunc x)"
| "py_int str_int (PyFloat NaN) = Inl ValueError"
| "py_int str_int (PyFloat PosInf) = Inl OverflowError"
| "py_int str_int (PyFloat NegInf) = Inl OverflowError"
| "py_int str_int (PyStr s) =
     (case str_int s of None \<Rightarrow> Inl ValueError | Some n \<Rightarrow> Inr n)"
| "py_int str_int PyObject = Inl TypeError"

text \<open>
  \<^verbatim>\<open>statistics.mean\<close>; both source files call it only on a list they have tested to be
  non-empty. It adds the finite values exactly and divides by their number
  (\<open>exact_mean\<close>); a \<^verbatim>\<open>nan\<close>, or both infinities, among the values make the mean \<^verbatim>\<open>nan\<close>,
  and one infinity makes it that infinity.
\<close>

definition exact_mean :: "real list \<Rightarrow> real" where
  "exact_mean xs = sum_list xs / real (length xs)"

fun finite_part :: "pyfloat \<Rightarrow> real" where
  "finite_part (Finite x) = x"
| "finite_part PosInf = 0"
| "finite_part NegInf = 0"
| "finite_part NaN = 0"

definition mean :: "pyfloat list \<Rightarrow> pyfloat" where
  "mean xs =
     (if NaN \<in> set xs \<or> (PosInf \<in> set xs \<and> NegInf \<in> set xs) then NaN
      else if PosInf \<in> set xs then PosInf
      else if NegInf \<in> set xs then NegInf
      else Finite (exact_mean (map finite_part xs)))"

text \<open>
  \<^verbatim>\<open>round(x, ndigits)\<close> on a finite value: the nearest multiple of \<open>10 ^ -ndigits\<close>. The
  model rounds the real number and breaks an exact tie to the even neighbour; Python
  rounds the double, which for a value such as 1/40 lies beside the tie, and may
  return the other neighbour there.
\<close>

definition round_half_even :: "real \<Rightarrow> int" where
  "round_half_even y =
     (let f = \<lfloor>y\<rfloor>; d = y - real_of_int f
      in if d < 1 / 2 then f else if 1 / 2 < d then f + 1
         else if even f then f else f + 1)"

definition py_round :: "real \<Rightarrow> nat \<Rightarrow> real" where
  "py_round x ndigits = real_of_int (round_half_even (x * 10 ^ ndigits)) / 10 ^ ndigits"

section \<open>Stored documents and the database\<close>

text \<open>
  A field the code reads with \<^verbatim>\<open>.get\<close>, or under \<^verbatim>\<open>except KeyError\<close>, may be absent
  and is an \<open>option\<close>. A calendar date is stored as an ISO-8601 string; such strings
  compare as the days they name, so a date is its day number. A timestamp is a number
  of milliseconds.
\<close>

record document =
  userId :: string

record sample = document +
  metricType :: string
  ts :: int
  sample_value :: "pyval option"

record item =
  item_type :: "string option"
  intensity :: "string option"
  durationMinutes :: nat
  description :: string

record plan = document +
  date :: int
  status :: "string option"
  items :: "item list option"

record recommendation = document +
  message :: string
  rec_context :: string

text \<open>
  The database holds three collections. When the server is not \<open>available\<close> every
  operation on a collection raises. The clock gives \<^verbatim>\<open>date.today()\<close> as a day number
  and \<^verbatim>\<open>datetime.utcnow()\<close> in milliseconds; one evaluation reads one clock value.
\<close>

record database =
  available :: bool
  plans :: "plan list"
  sensordata :: "sample list"
  recommendations :: "recommendation list"

record clock =
  today :: int
  utcnow :: int

text \<open>
  Modelled from the spec: the module \<^verbatim>\<open>models\<close> (\<^verbatim>\<open>plan_item\<close>, \<^verbatim>\<open>plan_doc\<close>,
  \<^verbatim>\<open>recommendation_doc\<close>) is not among the source files. The spec's data model gives a
  plan item the fields type, intensity, durationMinutes and description, and a plan
  record the fields userId, date, status and items; a recommendation keeps the three
  arguments of its call.
\<close>

definition plan_item :: "string \<Rightarrow> string \<Rightarrow> nat \<Rightarrow> string \<Rightarrow> item" where
  "plan_item t i d s =
     \<lparr>item_type = Some t, intensity = Some i, durationMinutes = d, description = s\<rparr>"

definition plan_doc :: "string \<Rightarrow> item list \<Rightarrow> int \<Rightarrow> string \<Rightarrow> plan" where
  "plan_doc user_id its d st =
     \<lparr>userId = user_id, date = d, status = Some st, items = Some its\<rparr>"

definition recommendation_doc :: "string \<Rightarrow> string \<Rightarrow> string \<Rightarrow> recommendation" where
  "recommendation_doc user_id msg ctx = \<lparr>userId = user_id, message = msg, rec_context = ctx\<rparr>"

section \<open>The behaviour model (\<^verbatim>\<open>behavior_model.py\<close>)\<close>

text \<open>
  \<^verbatim>\<open>_clamp\<close>: \<^verbatim>\<open>max(lo, min(hi, x))\<close> with finite bounds. Python's \<^verbatim>\<open>min(hi, x)\<close> is \<open>x\<close> when
  \<open>x < hi\<close> and \<open>hi\<close> otherwise, its \<^verbatim>\<open>max(lo, m)\<close> is \<open>m\<close> when \<open>m > lo\<close> and \<open>lo\<close>
  otherwise, and every comparison with \<^verbatim>\<open>nan\<close> is false: \<^verbatim>\<open>nan\<close> and \<^verbatim>\<open>inf\<close> give
  \<^verbatim>\<open>max(lo, hi)\<close> and \<^verbatim>\<open>-inf\<close> gives \<open>lo\<close>. The result is finite.
\<close>

fun clamp :: "pyfloat \<Rightarrow> real \<Rightarrow> real \<Rightarrow> real" where
  "clamp (Finite x) lo hi = max lo (min hi x)"
| "clamp PosInf lo hi = max lo hi"
| "clamp NaN lo hi = max lo hi"
| "clamp NegInf lo hi = lo"

text \<open>
  \<^verbatim>\<open>_recent_plans\<close>: the plans of the user dated \<open>since_str\<close> or later, where
  \<open>since_str\<close> is \<open>days\<close> days before today.
\<close>

definition recent_plans ::
  "database \<Rightarrow> clock \<Rightarrow> string \<Rightarrow> int \<Rightarrow> py_exception + plan list" where
  "recent_plans db clk user_id days =
     (let since_str = today clk - days
      in if available db
         then Inr (filter (\<lambda>p. userId p = user_id \<and> since_str \<le> date p) (plans db))
         else Inl ConnectionFailure)"

text \<open>
  \<^verbatim>\<open>_values\<close>. The cursor holds the samples of the user and metric with a timestamp of
  \<open>since\<close> or later, most recent first (samples of equal timestamp in their stored
  order), and at most \<open>limit\<close> of them; a limit of 0 is no limit. The loop appends
  \<^verbatim>\<open>float(d["value"])\<close> and skips the sample when that raises one of the three
  exceptions of its \<^verbatim>\<open>except\<close> clause; any other exception leaves the function.
\<close>

definition find_sensordata :: "database \<Rightarrow> string \<Rightarrow> string \<Rightarrow> int \<Rightarrow> sample list" where
  "find_sensordata db user_id metric since =
     filter (\<lambda>d. userId d = user_id \<and> metricType d = metric \<and> since \<le> ts d) (sensordata db)"

definition values_cursor ::
  "database \<Rightarrow> clock \<Rightarrow> string \<Rightarrow> string \<Rightarrow> int \<Rightarrow> nat \<Rightarrow> sample list" where
  "values_cursor db clk user_id metric hours limit =
     (let since = utcnow clk - hours * 3600000;
          found = sort_key (\<lambda>d. - ts d) (find_sensordata db user_id metric since)
      in if limit = 0 then found else take limit found)"

definition float_of_value ::
  "(string \<Rightarrow> pyfloat option) \<Rightarrow> sample \<Rightarrow> py_exception + pyfloat" where
  "float_of_value str_float d =
     (case sample_value d of None \<Rightarrow> Inl KeyError | Some v \<Rightarrow> py_float str_float v)"

fun values_loop ::
  "(string \<Rightarrow> pyfloat option) \<Rightarrow> pyfloat list \<Rightarrow> sample list
     \<Rightarrow> py_exception + pyfloat list" where
  "values_loop str_float vals [] = Inr vals"
| "values_loop str_float vals (d # cur) =
     (case float_of_value str_float d of
        Inr x \<Rightarrow> values_loop str_float (vals @ [x]) cur
      | Inl e \<Rightarrow>
          if e = ValueError \<or> e = TypeError \<or> e = KeyError
          then values_loop str_float vals cur
          else Inl e)"

definition fetch_values ::
  "(string \<Rightarrow> pyfloat option) \<Rightarrow> database \<Rightarrow> clock \<Rightarrow> string \<Rightarrow> string \<Rightarrow> int \<Rightarrow> nat
     \<Rightarrow> py_exception + pyfloat list" where
  "fetch_values str_float db clk user_id metric hours limit =
     (if available db
      then values_loop str_float [] (values_cursor db clk user_id metric hours limit)
      else Inl ConnectionFailure)"

text \<open>\<^verbatim>\<open>adherence_score\<close>, called with its default \<open>days = 7\<close>.\<close>

definition adherence_score ::
  "database \<Rightarrow> clock \<Rightarrow> string \<Rightarrow> int \<Rightarrow> py_exception + real" where
  "adherence_score db clk user_id days =
     (case recent_plans db clk user_id days of
        Inl e \<Rightarrow> Inl e
      | Inr ps \<Rightarrow>
          if ps = [] then Inr 0.5
          else let completed = length (filter (\<lambda>p. status p = Some ''Completed'') ps)
               in Inr (py_round (real completed / real (length ps)) 2))"

text \<open>
  \<^verbatim>\<open>readiness_score\<close>. The arithmetic of its body, one definition for each assignment,
  on the four lists that \<^verbatim>\<open>_values\<close> returns; \<^verbatim>\<open>_values\<close> is called with its default
  \<open>limit = 500\<close>.
\<close>

definition hr_baseline :: "pyfloat list \<Rightarrow> pyfloat" where
  "hr_baseline hr_base_vals =
     (if hr_base_vals \<noteq> [] then mean hr_base_vals else Finite 75.0)"

definition sleep_baseline :: "pyfloat list \<Rightarrow> pyfloat" where
  "sleep_baseline sleep_base_vals =
     (if sleep_base_vals \<noteq> [] then mean sleep_base_vals else Finite 70.0)"

definition hr_avg :: "pyfloat list \<Rightarrow> pyfloat \<Rightarrow> pyfloat" where
  "hr_avg hr_recent hr_base = (if hr_recent \<noteq> [] then mean hr_recent else hr_base)"

definition sleep_avg :: "pyfloat list \<Rightarrow> pyfloat \<Rightarrow> pyfloat" where
  "sleep_avg sleep_recent sleep_base =
     (if sleep_recent \<noteq> [] then mean sleep_recent else sleep_base)"

definition hr_score :: "pyfloat \<Rightarrow> pyfloat \<Rightarrow> real" where
  "hr_score hr_base hr_av =
     (let hr_delta = float_sub hr_base hr_av
      in clamp (float_add (Finite 0.5) (float_div hr_delta 20.0)) 0.1 1.0)"

definition sleep_score :: "pyfloat \<Rightarrow> real" where
  "sleep_score sleep_av = clamp (float_div sleep_av 100.0) 0.1 1.0"

definition readiness ::
  "pyfloat list \<Rightarrow> pyfloat list \<Rightarrow> pyfloat list \<Rightarrow> pyfloat list \<Rightarrow> real" where
  "readiness hr_base_vals sleep_base_vals hr_recent sleep_recent =
     (let hr_base = hr_baseline hr_base_vals;
          sleep_base = sleep_baseline sleep_base_vals;
          hr_av = hr_avg hr_recent hr_base;
          sleep_av = sleep_avg sleep_recent sleep_base
      in py_round (0.4 * hr_score hr_base hr_av + 0.6 * sleep_score sleep_av) 2)"

definition readiness_score ::
  "(string \<Rightarrow> pyfloat option) \<Rightarrow> database \<Rightarrow> clock \<Rightarrow> string \<Rightarrow> py_exception + real" where
  "readiness_score str_float db clk user_id =
     (case fetch_values str_float db clk user_id ''HR'' (24 * 14) 500 of
        Inl e \<Rightarrow> Inl e
      | Inr hr_base_vals \<Rightarrow>
     (case fetch_values str_float db clk user_id ''SleepScore'' (24 * 14) 500 of
        Inl e \<Rightarrow> Inl e
      | Inr sleep_base_vals \<Rightarrow>
     (case fetch_values str_float db clk user_id ''HR'' 24 500 of
        Inl e \<Rightarrow> Inl e
      | Inr hr_recent \<Rightarrow>
     (case fetch_values str_float db clk user_id ''SleepScore'' (24 * 7) 500 of
        Inl e \<Rightarrow> Inl e
      | Inr sleep_vals \<Rightarrow>
          Inr (readiness hr_base_vals sleep_base_vals hr_recent (take 3 sleep_vals))))))"

text \<open>
  \<^verbatim>\<open>next_best_intensity\<close>, in its three parts: the base thresholds, the intensity of the
  first Workout item of the most recent plan, and the hysteresis against it.
\<close>

definition base_thresholds :: "real \<Rightarrow> real \<Rightarrow> string" where
  "base_thresholds r a =
     (if r > 0.8 \<and> a \<ge> 0.6 then ''High''
      else if r \<ge> 0.6 then ''Moderate''
      else ''Low'')"

definition find_one_last :: "database \<Rightarrow> string \<Rightarrow> py_exception + plan option" where
  "find_one_last db user_id =
     (if available db
      then Inr (case sort_key (\<lambda>p. - date p) (filter (\<lambda>p. userId p = user_id) (plans db)) of
                  [] \<Rightarrow> None
                | p # _ \<Rightarrow> Some p)
      else Inl ConnectionFailure)"

definition last_workout_intensity :: "plan option \<Rightarrow> string option" where
  "last_workout_intensity last_plan =
     (case last_plan of
        None \<Rightarrow> None
      | Some p \<Rightarrow>
          (case items p of
             None \<Rightarrow> None
           | Some its \<Rightarrow>
               (case find (\<lambda>it. item_type it = Some ''Workout'') its of
                  None \<Rightarrow> None
                | Some it \<Rightarrow> intensity it)))"

definition order :: "string \<Rightarrow> int option" where
  "order = [''Low'' \<mapsto> 0, ''Moderate'' \<mapsto> 1, ''High'' \<mapsto> 2]"

definition order_get :: "string \<Rightarrow> int \<Rightarrow> int" where
  "order_get k dflt = (case order k of None \<Rightarrow> dflt | Some v \<Rightarrow> v)"

text \<open>
  \<^verbatim>\<open>if last_intensity:\<close> holds for a string that is not empty; it fails for \<^verbatim>\<open>None\<close> and
  for the empty string.
\<close>

definition mild_hysteresis :: "string \<Rightarrow> string option \<Rightarrow> string" where
  "mild_hysteresis target last_intensity =
     (case last_intensity of
        None \<Rightarrow> target
      | Some l \<Rightarrow>
          if l = [] then target
          else let li = order_get l 1;
                   ti = order_get target 1
               in if ti - li > 1 then ''Moderate''
                  else if li - ti > 1 then ''Moderate''
                  else target)"

definition next_best_intensity ::
  "(string \<Rightarrow> pyfloat option) \<Rightarrow> database \<Rightarrow> clock \<Rightarrow> string \<Rightarrow> py_exception + string" where
  "next_best_intensity str_float db clk user_id =
     (case readiness_score str_float db clk user_id of
        Inl e \<Rightarrow> Inl e
      | Inr r \<Rightarrow>
     (case adherence_score db clk user_id 7 of
        Inl e \<Rightarrow> Inl e
      | Inr a \<Rightarrow>
     (case find_one_last db user_id of
        Inl e \<Rightarrow> Inl e
      | Inr last_plan \<Rightarrow>
          Inr (mild_hysteresis (base_thresholds r a) (last_workout_intensity last_plan)))))"

section \<open>Plans and nudges (\<^verbatim>\<open>ai_engine.py\<close>)\<close>

text \<open>
  A value that a method returns: \<^verbatim>\<open>None\<close>, a string, an integer, a boolean, or a list
  of such values. A list cannot be hashed; the other values can. A value is true
  unless it is \<^verbatim>\<open>None\<close>, \<^verbatim>\<open>False\<close>, zero or empty.
\<close>

datatype py_object =
    ObjNone
  | ObjStr string
  | ObjInt int
  | ObjBool bool
  | ObjList "py_object list"

fun truthy :: "py_object \<Rightarrow> bool" where
  "truthy ObjNone = False"
| "truthy (ObjStr s) = (s \<noteq> [])"
| "truthy (ObjInt i) = (i \<noteq> 0)"
| "truthy (ObjBool b) = b"
| "truthy (ObjList xs) = (xs \<noteq> [])"

text \<open>\<^verbatim>\<open>v or dflt\<close>.\<close>

definition py_or :: "py_object \<Rightarrow> py_object \<Rightarrow> py_object" where
  "py_or v dflt = (if truthy v then v else dflt)"

text \<open>
  \<^verbatim>\<open>generate_plan\<close> receives the behaviour model as an object and calls its method
  \<^verbatim>\<open>next_best_intensity\<close>. The object is modelled by that method and the state \<open>'s\<close> it
  works on: a call raises or returns a value and leaves a new state.
  \<open>BehaviorModel\<close> is the object of the class of that name; its state is the database
  it reads.
\<close>

type_synonym 's behavior_model = "'s \<Rightarrow> string \<Rightarrow> (py_exception + py_object) \<times> 's"

definition BehaviorModel ::
  "(string \<Rightarrow> pyfloat option) \<Rightarrow> clock \<Rightarrow> database behavior_model" where
  "BehaviorModel str_float clk =
     (\<lambda>db user_id.
        (case next_best_intensity str_float db clk user_id of
           Inl e \<Rightarrow> Inl e
         | Inr target \<Rightarrow> Inr (ObjStr target),
         db))"

definition low_items :: "item list" where
  "low_items =
     [plan_item ''Workout'' ''Low'' 20 ''Light mobility + walk'',
      plan_item ''Habit'' ''Low'' 5 ''Hydrate: +1L'',
      plan_item ''Recovery'' ''Low'' 10 ''Stretch + sleep target 8h'']"

definition moderate_items :: "item list" where
  "moderate_items =
     [plan_item ''Workout'' ''Moderate'' 35 ''Bodyweight circuit + brisk walk'',
      plan_item ''Habit'' ''Low'' 5 ''2L water + protein target'',
      plan_item ''Recovery'' ''Low'' 10 ''Cooldown + mindfulness 5m'']"

definition high_items :: "item list" where
  "high_items =
     [plan_item ''Workout'' ''High'' 45 ''Intervals + strength'',
      plan_item ''Habit'' ''Low'' 5 ''Macros check + 2.5L water'',
      plan_item ''Recovery'' ''Low'' 15 ''Mobility + sleep hygiene'']"

definition base :: "string \<Rightarrow> item list option" where
  "base = [''Low'' \<mapsto> low_items, ''Moderate'' \<mapsto> moderate_items, ''High'' \<mapsto> high_items]"

text \<open>
  \<^verbatim>\<open>base.get(k, dflt)\<close>: the items stored under a string that is a key, \<open>dflt\<close> for any
  other value that can be hashed, and \<^verbatim>\<open>TypeError\<close> for a list.
\<close>

fun base_get :: "py_object \<Rightarrow> item list \<Rightarrow> py_exception + item list" where
  "base_get (ObjStr k) dflt = Inr (case base k of None \<Rightarrow> dflt | Some its \<Rightarrow> its)"
| "base_get (ObjList xs) dflt = Inl TypeError"
| "base_get ObjNone dflt = Inr dflt"
| "base_get (ObjInt i) dflt = Inr dflt"
| "base_get (ObjBool b) dflt = Inr dflt"

text \<open>
  \<^verbatim>\<open>update_one\<close> with \<^verbatim>\<open>upsert=True\<close>: the first stored plan of the same user and date
  takes the fields of the new plan; when there is none the new plan is inserted.
\<close>

fun upsert :: "plan \<Rightarrow> plan list \<Rightarrow> plan list" where
  "upsert p [] = [p]"
| "upsert p (q # qs) =
     (if userId q = userId p \<and> date q = date p then p # qs else q # upsert p qs)"

definition update_one :: "database \<Rightarrow> plan \<Rightarrow> py_exception + database" where
  "update_one db p =
     (if available db then Inr (db\<lparr>plans := upsert p (plans db)\<rparr>)
      else Inl ConnectionFailure)"

definition generate_plan ::
  "(string \<Rightarrow> string option) \<Rightarrow> 's behavior_model \<Rightarrow> 's \<Rightarrow> database \<Rightarrow> clock
     \<Rightarrow> py_exception + plan \<times> database \<times> 's" where
  "generate_plan user behavior_model s db clk =
     (case user ''userId'' of
        None \<Rightarrow> Inl KeyError
      | Some user_id \<Rightarrow>
          (case behavior_model s user_id of
             (outcome, s') \<Rightarrow>
               let intensity =
                     (case outcome of
                        Inr v \<Rightarrow> py_or v (ObjStr ''Moderate'')
                      | Inl e \<Rightarrow> ObjStr ''Moderate'')
               in case base_get intensity moderate_items of
                    Inl e \<Rightarrow> Inl e
                  | Inr its \<Rightarrow>
                      let p = plan_doc user_id its (today clk) ''Proposed''
                      in case update_one db p of
                           Inl e \<Rightarrow> Inl e
                         | Inr db' \<Rightarrow> Inr (p, db', s')))"

text \<open>
  \<^verbatim>\<open>generate_nudges\<close>. The comprehension leaves out a sample without a \<^verbatim>\<open>value\<close> field
  and applies \<^verbatim>\<open>int\<close> to every other one, outside any \<^verbatim>\<open>try\<close>.
\<close>

definition steps_cursor :: "database \<Rightarrow> string \<Rightarrow> sample list" where
  "steps_cursor db user_id =
     take 6 (sort_key (\<lambda>d. - ts d)
       (filter (\<lambda>d. userId d = user_id \<and> metricType d = ''Steps'') (sensordata db)))"

fun recent_steps :: "(string \<Rightarrow> int option) \<Rightarrow> sample list \<Rightarrow> py_exception + int list" where
  "recent_steps str_int [] = Inr []"
| "recent_steps str_int (m # cursor) =
     (case sample_value m of
        None \<Rightarrow> recent_steps str_int cursor
      | Some v \<Rightarrow>
          (case py_int str_int v of
             Inl e \<Rightarrow> Inl e
           | Inr n \<Rightarrow>
               (case recent_steps str_int cursor of
                  Inl e \<Rightarrow> Inl e
                | Inr ns \<Rightarrow> Inr (n # ns))))"

definition nudge_message :: "int \<Rightarrow> string" where
  "nudge_message avg =
     (if avg < 300 then ''Quick win: 10-minute brisk walk to boost your step count.''
      else if avg < 2000 then ''Great start! Add another short walk to hit your daily goal.''
      else ''Nice pace! Add a 5-minute stretch break to stay loose.'')"

definition insert_one :: "database \<Rightarrow> recommendation \<Rightarrow> py_exception + database" where
  "insert_one db r =
     (if available db then Inr (db\<lparr>recommendations := recommendations db @ [r]\<rparr>)
      else Inl ConnectionFailure)"

definition generate_nudges ::
  "(string \<Rightarrow> int option) \<Rightarrow> string \<Rightarrow> 's behavior_model \<Rightarrow> database
     \<Rightarrow> py_exception + recommendation \<times> database" where
  "generate_nudges str_int user_id behavior_model db =
     (if \<not> available db then Inl ConnectionFailure
      else case recent_steps str_int (steps_cursor db user_id) of
             Inl e \<Rightarrow> Inl e
           | Inr steps \<Rightarrow>
               let avg = (if steps \<noteq> [] then py_trunc (exact_mean (map real_of_int steps)) else 0);
                   r = recommendation_doc user_id (nudge_message avg) ''nudge''
               in case insert_one db r of
                    Inl e \<Rightarrow> Inl e
                  | Inr db' \<Rightarrow> Inr (r, db'))"

section \<open>Notions of the specification and example data\<close>

text \<open>
  The numeric samples of a list are those on which \<^verbatim>\<open>float(d["value"])\<close> returns; their
  values, in the order of the list.
\<close>

fun numeric_values :: "(string \<Rightarrow> pyfloat option) \<Rightarrow> sample list \<Rightarrow> pyfloat list" where
  "numeric_values str_float [] = []"
| "numeric_values str_float (d # ds) =
     (case float_of_value str_float d of
        Inr x \<Rightarrow> x # numeric_values str_float ds
      | Inl e \<Rightarrow> numeric_values str_float ds)"

text \<open>
  A small database for user \<open>u1\<close>. The clock reads day 100 and 2000000000 ms, so the
  windows of 14 days, 7 days and 24 hours begin at 790400000, 1395200000 and
  1913600000 ms, and the window of 7 days of plans at day 93.
\<close>

definition demo_clock :: clock where
  "demo_clock = \<lparr>today = 100, utcnow = 2000000000\<rparr>"

definition demo_sample :: "string \<Rightarrow> string \<Rightarrow> int \<Rightarrow> pyval option \<Rightarrow> sample" where
  "demo_sample u m t v = \<lparr>userId = u, metricType = m, ts = t, sample_value = v\<rparr>"

definition demo_sensordata :: "sample list" where
  "demo_sensordata =
     [demo_sample ''u1'' ''HR'' 1000000000 (Some (PyInt 80)),
      demo_sample ''u1'' ''HR'' 1900000000 (Some (PyStr ''n/a'')),
      demo_sample ''u1'' ''HR'' 1950000000 (Some (PyFloat (Finite 60))),
      demo_sample ''u1'' ''HR'' 1940000000 None,
      demo_sample ''u1'' ''HR'' 100 (Some (PyFloat (Finite 200))),
      demo_sample ''u2'' ''HR'' 1950000000 (Some (PyFloat (Finite 100))),
      demo_sample ''u3'' ''HR'' 1000000000 (Some (PyFloat (Finite 64))),
      demo_sample ''u4'' ''HR'' 1000000000 (Some (PyFloat (Finite 120))),
      demo_sample ''u4'' ''HR'' 1950000000 (Some (PyFloat (Finite 60))),
      demo_sample ''u4'' ''SleepScore'' 1990000000 (Some (PyFloat (Finite 5))),
      demo_sample ''u5'' ''HR'' 1000000000 (Some (PyFloat (Finite 40))),
      demo_sample ''u5'' ''HR'' 1950000000 (Some (PyFloat (Finite 100))),
      demo_sample ''u5'' ''SleepScore'' 1990000000 (Some (PyFloat (Finite 150))),
      demo_sample ''u1'' ''SleepScore'' 900000000 (Some (PyInt 70)),
      demo_sample ''u1'' ''SleepScore'' 1990000000 (Some (PyFloat (Finite 90)))]"

definition demo_plan :: "string \<Rightarrow> int \<Rightarrow> string option \<Rightarrow> item list option \<Rightarrow> plan" where
  "demo_plan u d st its = \<lparr>userId = u, date = d, status = st, items = its\<rparr>"

definition demo_plans :: "plan list" where
  "demo_plans =
     [demo_plan ''u1'' 50 (Some ''Completed'') (Some high_items),
      demo_plan ''u1'' 94 (Some ''Completed'') (Some moderate_items),
      demo_plan ''u1'' 95 (Some ''Completed'') None,
      demo_plan ''u1'' 98 (Some ''Completed'') (Some low_items),
      demo_plan ''u1'' 96 (Some ''Skipped'') (Some moderate_items),
      demo_plan ''u1'' 97 None (Some []),
      demo_plan ''u2'' 99 (Some ''Completed'') (Some high_items)]"

definition demo_db :: database where
  "demo_db =
     \<lparr>available = True, plans = demo_plans, sensordata = demo_sensordata,
      recommendations = []\<rparr>"

text \<open>
  A user document, the example database when its server is down, and two behaviour
  models that count their calls: one always raises, one returns a string that names
  no tier, one returns a list.
\<close>

definition demo_user :: "string \<Rightarrow> string option" where
  "demo_user = [''userId'' \<mapsto> ''u1'']"



definition odd_model :: "nat behavior_model" where
  "odd_model = (\<lambda>calls user_id. (Inr (ObjStr ''Extreme''), Suc calls))"

definition list_model :: "nat behavior_model" where
  "list_model = (\<lambda>calls user_id. (Inr (ObjList [ObjStr ''High'']), Suc calls))"


text \<open>
  Step samples of which one has the value \<^verbatim>\<open>None\<close> and one has no value; and two
  databases with 501 HR samples in the window of 14 days.
\<close>

definition steps_db :: database where
  "steps_db =
     \<lparr>available = True, plans = [],
      sensordata =
        [demo_sample ''u1'' ''Steps'' 1950000000 (Some (PyInt 4000)),
         demo_sample ''u1'' ''Steps'' 1960000000 (Some PyNone),
         demo_sample ''u1'' ''Steps'' 1970000000 None],
      recommendations = []\<rparr>"

definition crowded_db :: database where
  "crowded_db =
     \<lparr>available = True, plans = [],
      sensordata =
        replicate 500 (demo_sample ''u1'' ''HR'' 1950000000 (Some (PyFloat (Finite 60))))
        @ [demo_sample ''u1'' ''HR'' 1900000000 (Some (PyFloat (Finite 561)))],
      recommendations = []\<rparr>"

definition silent_db :: database where
  "silent_db =
     \<lparr>available = True, plans = [],
      sensordata =
        replicate 500 (demo_sample ''u1'' ''HR'' 1950000000 (Some PyNone))
        @ [demo_sample ''u1'' ''HR'' 1900000000 (Some (PyFloat (Finite 61)))],
      recommendations = []\<rparr>"

section \<open>Facts about the helpers\<close>

lemma py_float_raises: "py_float sf v = Inl e \<Longrightarrow> e = ValueError \<or> e = TypeError"
  by (cases v) (auto split: option.splits)

lemma float_of_value_raises:
  "float_of_value sf d = Inl e \<Longrightarrow> e = ValueError \<or> e = TypeError \<or> e = KeyError"
  by (auto simp: float_of_value_def split: option.splits dest: py_float_raises)

text \<open>
  The loop of \<^verbatim>\<open>_values\<close> never leaves through an exception: it returns the values of the
  numeric samples of the cursor, appended to what it had.
\<close>

lemma values_loop_numeric: "values_loop sf vals cur = Inr (vals @ numeric_values sf cur)"
proof (induction cur arbitrary: vals)
  case Nil
  show ?case by simp
next
  case (Cons d cur)
  show ?case
  proof (cases "float_of_value sf d")
    case (Inl e)
    with float_of_value_raises[OF Inl] Cons show ?thesis by auto
  next
    case (Inr x)
    with Cons show ?thesis by simp
  qed
qed

lemma fetch_values_available:
  "available db \<Longrightarrow>
     fetch_values sf db clk u m h l = Inr (numeric_values sf (values_cursor db clk u m h l))"
  by (simp add: fetch_values_def values_loop_numeric)

lemma fetch_values_unavailable:
  "\<not> available db \<Longrightarrow> fetch_values sf db clk u m h l = Inl ConnectionFailure"
  by (simp add: fetch_values_def)

lemma clamp_bounds: "lo \<le> hi \<Longrightarrow> lo \<le> clamp x lo hi \<and> clamp x lo hi \<le> hi"
  by (cases x) auto

lemma round_half_even_floor_ceiling:
  "\<lfloor>y\<rfloor> \<le> round_half_even y \<and> round_half_even y \<le> \<lceil>y\<rceil>"
  unfolding round_half_even_def Let_def by (auto simp: ceiling_altdef)


lemma py_round_2_range:
  assumes "1 / 10 \<le> x" "x \<le> 1"
  shows "1 / 10 \<le> py_round x 2 \<and> py_round x 2 \<le> 1"
proof -
  have lo: "(10::int) \<le> \<lfloor>x * 100\<rfloor>" using assms by (simp add: le_floor_iff)
  have hi: "\<lceil>x * 100\<rceil> \<le> (100::int)" using assms by (simp add: ceiling_le_iff)
  from lo hi round_half_even_floor_ceiling[of "x * 100"]
  have "10 \<le> round_half_even (x * 100)" "round_half_even (x * 100) \<le> 100" by linarith+
  then have "10 \<le> real_of_int (round_half_even (x * 100))"
    "real_of_int (round_half_even (x * 100)) \<le> 100" by linarith+
  then show ?thesis by (simp add: py_round_def field_simps)
qed

lemma readiness_range: "1 / 10 \<le> readiness a b c d \<and> readiness a b c d \<le> 1"
proof -
  define h where "h = hr_score (hr_baseline a) (hr_avg c (hr_baseline a))"
  define s where "s = sleep_score (sleep_avg d (sleep_baseline b))"
  have h: "1 / 10 \<le> h" "h \<le> 1"
    using clamp_bounds[of "0.1" "1.0"] by (simp_all add: h_def hr_score_def Let_def)
  have s: "1 / 10 \<le> s" "s \<le> 1"
    using clamp_bounds[of "0.1" "1.0"] by (simp_all add: s_def sleep_score_def)
  have "1 / 10 \<le> 0.4 * h + 0.6 * s" "0.4 * h + 0.6 * s \<le> 1" using h s by simp_all
  from py_round_2_range[OF this] show ?thesis
    by (simp add: readiness_def Let_def h_def s_def)
qed

lemma readiness_score_available:
  "available db \<Longrightarrow>
     readiness_score sf db clk u =
       Inr (readiness
         (numeric_values sf (values_cursor db clk u ''HR'' (24 * 14) 500))
         (numeric_values sf (values_cursor db clk u ''SleepScore'' (24 * 14) 500))
         (numeric_values sf (values_cursor db clk u ''HR'' 24 500))
         (take 3 (numeric_values sf (values_cursor db clk u ''SleepScore'' (24 * 7) 500))))"
  by (simp add: readiness_score_def fetch_values_available)

lemma readiness_score_unavailable:
  "\<not> available db \<Longrightarrow> readiness_score sf db clk u = Inl ConnectionFailure"
  by (simp add: readiness_score_def fetch_values_unavailable)

lemma adherence_score_eq:
  "available db \<Longrightarrow>
     adherence_score db clk u days =
       (let ps = filter (\<lambda>p. userId p = u \<and> today clk - days \<le> date p) (plans db)
        in if ps = [] then Inr 0.5
           else Inr (py_round
             (real (length (filter (\<lambda>p. status p = Some ''Completed'') ps)) / real (length ps))
             2))"
  by (simp add: adherence_score_def recent_plans_def Let_def)

lemma find_one_last_available: "available db \<Longrightarrow> \<exists>p. find_one_last db u = Inr p"
  by (simp add: find_one_last_def)

lemma order_values:
  "order ''Low'' = Some 0" "order ''Moderate'' = Some 1" "order ''High'' = Some 2"
  by (simp_all add: order_def)

lemma order_Some_iff:
  "order k = Some n \<longleftrightarrow>
     k = ''Low'' \<and> n = 0 \<or> k = ''Moderate'' \<and> n = 1 \<or> k = ''High'' \<and> n = 2"
  by (auto simp: order_def)

lemma order_get_tiers:
  "order_get ''Low'' d = 0" "order_get ''Moderate'' d = 1" "order_get ''High'' d = 2"
  by (simp_all add: order_get_def order_def)

lemma base_thresholds_cases:
  "base_thresholds r a = ''Low'' \<or> base_thresholds r a = ''Moderate''
     \<or> base_thresholds r a = ''High''"
  by (simp add: base_thresholds_def)

text \<open>The hysteresis on the nine pairs of tiers.\<close>

lemma mild_hysteresis_tiers:
  "mild_hysteresis ''Low'' (Some ''Low'') = ''Low''"
  "mild_hysteresis ''Moderate'' (Some ''Low'') = ''Moderate''"
  "mild_hysteresis ''High'' (Some ''Low'') = ''Moderate''"
  "mild_hysteresis ''Low'' (Some ''Moderate'') = ''Low''"
  "mild_hysteresis ''Moderate'' (Some ''Moderate'') = ''Moderate''"
  "mild_hysteresis ''High'' (Some ''Moderate'') = ''High''"
  "mild_hysteresis ''Low'' (Some ''High'') = ''Moderate''"
  "mild_hysteresis ''Moderate'' (Some ''High'') = ''Moderate''"
  "mild_hysteresis ''High'' (Some ''High'') = ''High''"
  by (simp_all add: mild_hysteresis_def order_get_tiers)

lemma mild_hysteresis_None: "mild_hysteresis raw None = raw"
  by (simp add: mild_hysteresis_def)

section \<open>The example database, evaluated\<close>

lemma demo_readiness: "readiness_score (\<lambda>s. None) demo_db demo_clock ''u1'' = Inr 0.94"
  apply (simp add: readiness_score_def fetch_values_def values_cursor_def demo_clock_def
      find_sensordata_def demo_db_def demo_sensordata_def demo_sample_def float_of_value_def)
  apply (simp add: readiness_def hr_baseline_def sleep_baseline_def hr_avg_def sleep_avg_def
      hr_score_def sleep_score_def mean_def exact_mean_def py_round_def round_half_even_def
      Let_def)
  done

lemma demo_adherence: "adherence_score demo_db demo_clock ''u1'' 7 = Inr 0.6"
  by (simp add: adherence_score_def recent_plans_def demo_clock_def demo_db_def demo_plans_def
      demo_plan_def py_round_def round_half_even_def Let_def)

lemma demo_last:
  "find_one_last demo_db ''u1'' =
     Inr (Some (demo_plan ''u1'' 98 (Some ''Completed'') (Some low_items)))"
  by (simp add: find_one_last_def demo_db_def demo_plans_def demo_plan_def)

lemma demo_last_intensity:
  "last_workout_intensity (Some (demo_plan ''u1'' 98 (Some ''Completed'') (Some low_items)))
     = Some ''Low''"
  by (simp add: last_workout_intensity_def demo_plan_def low_items_def plan_item_def)

lemma demo_next_best_intensity:
  "next_best_intensity (\<lambda>s. None) demo_db demo_clock ''u1'' = Inr ''Moderate''"
  by (simp add: next_best_intensity_def demo_readiness demo_adherence demo_last
      demo_last_intensity base_thresholds_def mild_hysteresis_tiers)

section \<open>The intensity classifier and the hysteresis\<close>

text \<open>
  C1. The base thresholds of \<^verbatim>\<open>next_best_intensity\<close> give High exactly when
  \<open>r > 0.8\<close> and \<open>a \<ge> 0.6\<close>, otherwise Moderate exactly when \<open>r \<ge> 0.6\<close>, otherwise Low;
  \<open>(0.85, 0.7)\<close> gives High, \<open>(0.85, 0.3)\<close> Moderate and \<open>(0.5, 0.9)\<close> Low.
\<close>

theorem base_thresholds_tiers:
  "(base_thresholds r a = ''High'' \<longleftrightarrow> r > 0.8 \<and> a \<ge> 0.6)
   \<and> (base_thresholds r a = ''Moderate'' \<longleftrightarrow> \<not> (r > 0.8 \<and> a \<ge> 0.6) \<and> r \<ge> 0.6)
   \<and> (base_thresholds r a = ''Low'' \<longleftrightarrow> \<not> (r > 0.8 \<and> a \<ge> 0.6) \<and> \<not> r \<ge> 0.6)
   \<and> base_thresholds 0.85 0.7 = ''High''
   \<and> base_thresholds 0.85 0.3 = ''Moderate''
   \<and> base_thresholds 0.5 0.9 = ''Low''"
  by (simp add: base_thresholds_def)

theorem base_thresholds_tiers_witness:
  "base_thresholds 0.94 0.6 = ''High'' \<and> base_thresholds 0.8 1 = ''Moderate''
   \<and> base_thresholds 0.59 1 = ''Low''"
  using base_thresholds_tiers[of "0.94" "0.6"] base_thresholds_tiers[of "0.8" 1]
    base_thresholds_tiers[of "0.59" 1]
  by simp

text \<open>
  C2. The hysteresis step returns the raw tier when there is no last intensity. With a
  last intensity among Low, Moderate and High, of ordinals 0, 1 and 2, it returns
  Moderate when the ordinals of the raw tier and of the last intensity differ by more
  than one in either direction, and the raw tier otherwise. Last Low and raw High give
  Moderate, last Low and raw Moderate give Moderate, last High and raw Low give
  Moderate, no last intensity and raw High give High.
\<close>

theorem mild_hysteresis_step:
  "mild_hysteresis raw None = raw
   \<and> (\<forall>ti li. order raw = Some ti \<and> order l = Some li \<longrightarrow>
         mild_hysteresis raw (Some l) =
           (if 1 < ti - li \<or> 1 < li - ti then ''Moderate'' else raw))
   \<and> dom order = {''Low'', ''Moderate'', ''High''}
   \<and> order ''Low'' = Some 0 \<and> order ''Moderate'' = Some 1 \<and> order ''High'' = Some 2
   \<and> mild_hysteresis ''High'' (Some ''Low'') = ''Moderate''
   \<and> mild_hysteresis ''Moderate'' (Some ''Low'') = ''Moderate''
   \<and> mild_hysteresis ''Low'' (Some ''High'') = ''Moderate''
   \<and> mild_hysteresis ''High'' None = ''High''"
proof -
  have step: "mild_hysteresis raw (Some l) =
      (if 1 < ti - li \<or> 1 < li - ti then ''Moderate'' else raw)"
    if "order raw = Some ti" "order l = Some li" for ti li
    using that by (auto simp: order_Some_iff mild_hysteresis_tiers)
  have "dom order = {''Low'', ''Moderate'', ''High''}"
    by (auto simp: order_def split: if_splits)
  with step show ?thesis
    by (simp add: mild_hysteresis_None mild_hysteresis_tiers order_values)
qed

theorem mild_hysteresis_step_witness:
  "order ''Low'' = Some 0 \<and> order ''High'' = Some 2
   \<and> mild_hysteresis ''Low'' (Some ''High'') = ''Moderate''
   \<and> order ''Moderate'' = Some 1
   \<and> mild_hysteresis ''Moderate'' (Some ''High'') = ''Moderate''"
  using mild_hysteresis_step[of "''Low''" "''High''"]
    mild_hysteresis_step[of "''Moderate''" "''High''"]
  by simp

lemma adherence_score_available:
  "available db \<Longrightarrow> \<exists>a. adherence_score db clk u days = Inr a"
  unfolding adherence_score_eq Let_def by (rule if_split[THEN iffD2]) blast

lemma base_thresholds_order: "\<exists>k. order (base_thresholds r a) = Some k"
  using base_thresholds_cases[of r a] by (auto simp: order_values)

lemma mild_hysteresis_within_one:
  assumes "order raw = Some ti" "order l = Some li"
  shows "\<exists>k. order (mild_hysteresis raw (Some l)) = Some k \<and> \<bar>k - li\<bar> \<le> 1"
  using assms by (auto simp: order_Some_iff mild_hysteresis_tiers)

text \<open>
  C3. With a last Workout intensity among Low, Moderate and High, the tier that
  \<^verbatim>\<open>next_best_intensity\<close> returns is at most one ordinal step away from it, for every raw
  tier; with no last Workout intensity the returned tier is the raw tier of the
  classifier.
\<close>

theorem next_best_intensity_within_one_step:
  "(\<forall>ti li. order raw = Some ti \<and> order l = Some li \<longrightarrow>
       (\<exists>k. order (mild_hysteresis raw (Some l)) = Some k \<and> \<bar>k - li\<bar> \<le> 1))
   \<and> (available db \<longrightarrow>
        (\<exists>r a last_plan t.
            readiness_score sf db clk u = Inr r
          \<and> adherence_score db clk u 7 = Inr a
          \<and> find_one_last db u = Inr last_plan
          \<and> next_best_intensity sf db clk u = Inr t
          \<and> (\<forall>l li. last_workout_intensity last_plan = Some l \<and> order l = Some li \<longrightarrow>
                (\<exists>k. order t = Some k \<and> \<bar>k - li\<bar> \<le> 1))
          \<and> (last_workout_intensity last_plan = None \<longrightarrow> t = base_thresholds r a)))"
proof (intro conjI impI allI)
  fix ti li assume "order raw = Some ti \<and> order l = Some li"
  then show "\<exists>k. order (mild_hysteresis raw (Some l)) = Some k \<and> \<bar>k - li\<bar> \<le> 1"
    using mild_hysteresis_within_one by blast
next
  assume av: "available db"
  obtain r where r: "readiness_score sf db clk u = Inr r"
    using readiness_score_available[OF av] by blast
  obtain a where a: "adherence_score db clk u 7 = Inr a"
    using adherence_score_available[OF av] by blast
  obtain p where p: "find_one_last db u = Inr p"
    using find_one_last_available[OF av] by blast
  define t where "t = mild_hysteresis (base_thresholds r a) (last_workout_intensity p)"
  have nbi: "next_best_intensity sf db clk u = Inr t"
    by (simp add: next_best_intensity_def r a p t_def)
  have one: "\<exists>k. order t = Some k \<and> \<bar>k - li\<bar> \<le> 1"
    if "last_workout_intensity p = Some l \<and> order l = Some li" for l li
  proof -
    obtain ti where "order (base_thresholds r a) = Some ti"
      using base_thresholds_order by blast
    with that mild_hysteresis_within_one show ?thesis by (simp add: t_def)
  qed
  have none: "t = base_thresholds r a" if "last_workout_intensity p = None"
    using that by (simp add: t_def mild_hysteresis_None)
  show "\<exists>r a last_plan t.
            readiness_score sf db clk u = Inr r
          \<and> adherence_score db clk u 7 = Inr a
          \<and> find_one_last db u = Inr last_plan
          \<and> next_best_intensity sf db clk u = Inr t
          \<and> (\<forall>l li. last_workout_intensity last_plan = Some l \<and> order l = Some li \<longrightarrow>
                (\<exists>k. order t = Some k \<and> \<bar>k - li\<bar> \<le> 1))
          \<and> (last_workout_intensity last_plan = None \<longrightarrow> t = base_thresholds r a)"
    apply (rule exI[of _ r], rule exI[of _ a], rule exI[of _ p], rule exI[of _ t])
    using r a p nbi one none by blast
qed

theorem next_best_intensity_within_one_step_witness:
  "available demo_db
   \<and> last_workout_intensity (Some (demo_plan ''u1'' 98 (Some ''Completed'') (Some low_items))) = Some ''Low''
   \<and> order ''Low'' = Some 0
   \<and> next_best_intensity (\<lambda>s. None) demo_db demo_clock ''u1'' = Inr ''Moderate''
   \<and> order ''Moderate'' = Some 1 \<and> \<bar>1 - 0 :: int\<bar> \<le> 1"
  using next_best_intensity_within_one_step[of "''High''" "''Low''" demo_db "\<lambda>s. None" demo_clock "''u1''"]
  by (simp add: demo_next_best_intensity demo_last_intensity order_values) (simp add: demo_db_def)

section \<open>The scores\<close>

text \<open>
  C6. Whatever samples the database holds (none, or some without a number as their
  value), the value that \<^verbatim>\<open>readiness_score\<close> returns lies between 0.1 and 1.0, and it
  returns one whenever the database answers.
\<close>

theorem readiness_score_in_range:
  "(\<forall>r. readiness_score sf db clk u = Inr r \<longrightarrow> 0.1 \<le> r \<and> r \<le> 1.0)
   \<and> (available db \<longrightarrow> (\<exists>r. readiness_score sf db clk u = Inr r))"
proof (intro conjI impI allI)
  fix r assume r: "readiness_score sf db clk u = Inr r"
  show "0.1 \<le> r" "r \<le> 1.0"
  proof -
    have av: "available db"
      using r readiness_score_unavailable[of db sf clk u] by auto
    from r readiness_score_available[OF av, of sf clk u] readiness_range
    show "0.1 \<le> r" "r \<le> 1.0" by auto
  qed
next
  assume "available db"
  then show "\<exists>r. readiness_score sf db clk u = Inr r"
    using readiness_score_available by blast
qed

theorem readiness_score_in_range_witness:
  "available demo_db \<and> readiness_score (\<lambda>s. None) demo_db demo_clock ''u1'' = Inr 0.94
   \<and> (0.1::real) \<le> 0.94 \<and> (0.94::real) \<le> 1.0"
  using readiness_score_in_range[of "\<lambda>s. None" demo_db demo_clock "''u1''"]
  by (simp add: demo_readiness) (simp add: demo_db_def)





lemma demo_available: "available demo_db"
  by (simp add: demo_db_def)



section \<open>The readiness formula\<close>

lemma mean_Finite: "mean (map Finite xs) = Finite (sum_list xs / real (length xs))"
proof -
  have "map finite_part (map Finite xs) = xs" by (induction xs) auto
  then show ?thesis by (auto simp: mean_def exact_mean_def)
qed






lemma hr_score_infinite:
  "hr_score PosInf (Finite a) = 1.0" "hr_score (Finite b) NegInf = 1.0"
  "hr_score PosInf NegInf = 1.0"
  "hr_score NegInf (Finite a) = 0.1" "hr_score (Finite b) PosInf = 0.1"
  "hr_score NegInf PosInf = 0.1"
  by (simp_all add: hr_score_def)









lemma demo_u3_values:
  "numeric_values (\<lambda>s. None) (values_cursor demo_db demo_clock ''u3'' ''HR'' (24 * 14) 500)
     = [Finite 64]"
  "numeric_values (\<lambda>s. None) (values_cursor demo_db demo_clock ''u3'' ''HR'' 24 500) = []"
  "numeric_values (\<lambda>s. None) (values_cursor demo_db demo_clock ''u3'' ''SleepScore'' (24 * 14) 500) = []"
  "numeric_values (\<lambda>s. None) (values_cursor demo_db demo_clock ''u3'' ''SleepScore'' (24 * 7) 500) = []"
  by (simp_all add: values_cursor_def demo_clock_def find_sensordata_def demo_db_def
      demo_sensordata_def demo_sample_def float_of_value_def)










section \<open>Plan generation\<close>



lemma base_get_tiers:
  "base_get (ObjStr ''Low'') d = Inr low_items"
  "base_get (ObjStr ''Moderate'') d = Inr moderate_items"
  "base_get (ObjStr ''High'') d = Inr high_items"
  by (simp_all add: base_def)

lemma base_get_other:
  "k \<noteq> ''Low'' \<Longrightarrow> k \<noteq> ''Moderate'' \<Longrightarrow> k \<noteq> ''High'' \<Longrightarrow> base_get (ObjStr k) d = Inr d"
  by (simp add: base_def)

lemma base_get_hashable:
  assumes "\<forall>xs. v \<noteq> ObjList xs" "v \<noteq> ObjStr ''Low''" "v \<noteq> ObjStr ''Moderate''"
    "v \<noteq> ObjStr ''High''"
  shows "base_get v d = Inr d"
  using assms by (cases v) (auto simp: base_def)

lemma base_get_template:
  "base_get v moderate_items = Inr its \<Longrightarrow>
     its = low_items \<or> its = moderate_items \<or> its = high_items"
  by (cases v) (auto simp: base_def split: if_splits)

lemma py_or_falsy: "\<not> truthy v \<Longrightarrow> py_or v d = d"
  by (simp add: py_or_def)

lemma py_or_truthy: "truthy v \<Longrightarrow> py_or v d = v"
  by (simp add: py_or_def)

lemma generate_plan_eq:
  "user ''userId'' = Some user_id \<Longrightarrow> bm s user_id = (outcome, s') \<Longrightarrow>
     generate_plan user bm s db clk =
       (case base_get
               (case outcome of Inr v \<Rightarrow> py_or v (ObjStr ''Moderate'') | Inl e \<Rightarrow> ObjStr ''Moderate'')
               moderate_items of
          Inl e \<Rightarrow> Inl e
        | Inr its \<Rightarrow>
            (let p = plan_doc user_id its (today clk) ''Proposed''
             in if available db then Inr (p, db\<lparr>plans := upsert p (plans db)\<rparr>, s')
                else Inl ConnectionFailure))"
  by (simp add: generate_plan_def update_one_def Let_def split: sum.splits)



text \<open>
  C10, as stated, fails for a true value that cannot be hashed: when the call returns
  the list \<^verbatim>\<open>['High']\<close>, \<^verbatim>\<open>base.get\<close> raises \<^verbatim>\<open>TypeError\<close> outside the \<^verbatim>\<open>try\<close> and
  \<^verbatim>\<open>generate_plan\<close> produces no plan.
\<close>

theorem generate_plan_raises_on_list:
  "demo_user ''userId'' = Some ''u1''
   \<and> list_model 0 ''u1'' = (Inr (ObjList [ObjStr ''High'']), 1)
   \<and> truthy (ObjList [ObjStr ''High''])
   \<and> available demo_db
   \<and> generate_plan demo_user list_model 0 demo_db demo_clock = Inl TypeError"
proof -
  have u: "demo_user ''userId'' = Some ''u1''" by (simp add: demo_user_def)
  have l: "list_model 0 ''u1'' = (Inr (ObjList [ObjStr ''High'']), 1)"
    by (simp add: list_model_def)
  have "generate_plan demo_user list_model 0 demo_db demo_clock = Inl TypeError"
    by (simp add: generate_plan_eq[where user=demo_user and bm=list_model and s=0, OF u l]
        py_or_def)
  with u l demo_available show ?thesis by simp
qed

text \<open>
  C10, amended. When the call of \<^verbatim>\<open>next_best_intensity\<close> returns a value that is false
  or can be hashed, \<^verbatim>\<open>generate_plan\<close> builds the plan from one of the three item lists:
  a false value (such as \<^verbatim>\<open>None\<close> or the empty string) is replaced by Moderate, and a
  true value other than the strings Low, Moderate and High selects the Moderate
  items. When it returns a list that is not empty, \<^verbatim>\<open>generate_plan\<close> raises
  \<^verbatim>\<open>TypeError\<close>. The items of every plan that \<^verbatim>\<open>generate_plan\<close> returns are the Low, the
  Moderate or the High items.
\<close>

theorem generate_plan_template:
  "(\<forall>p db' s'. generate_plan user behavior_model s db clk = Inr (p, db', s') \<longrightarrow>
       items p = Some low_items \<or> items p = Some moderate_items \<or> items p = Some high_items)
   \<and> \<not> truthy ObjNone \<and> \<not> truthy (ObjStr [])
   \<and> (\<forall>user_id v s'.
         user ''userId'' = Some user_id \<and> behavior_model s user_id = (Inr v, s') \<and> available db \<longrightarrow>
           (\<not> truthy v \<or> (\<forall>xs. v \<noteq> ObjList xs) \<longrightarrow>
              (\<exists>p db'. generate_plan user behavior_model s db clk = Inr (p, db', s')
                 \<and> (\<not> truthy v \<longrightarrow>
                       py_or v (ObjStr ''Moderate'') = ObjStr ''Moderate''
                     \<and> items p = Some moderate_items)
                 \<and> (truthy v \<and> v \<noteq> ObjStr ''Low'' \<and> v \<noteq> ObjStr ''Moderate''
                       \<and> v \<noteq> ObjStr ''High'' \<longrightarrow> items p = Some moderate_items)
                 \<and> (v = ObjStr ''Low'' \<longrightarrow> items p = Some low_items)
                 \<and> (v = ObjStr ''Moderate'' \<longrightarrow> items p = Some moderate_items)
                 \<and> (v = ObjStr ''High'' \<longrightarrow> items p = Some high_items)))
         \<and> (\<forall>xs. v = ObjList xs \<and> xs \<noteq> [] \<longrightarrow>
                generate_plan user behavior_model s db clk = Inl TypeError))"
proof (intro conjI allI impI)
  fix p db' s'
  assume g: "generate_plan user behavior_model s db clk = Inr (p, db', s')"
  then obtain user_id where u: "user ''userId'' = Some user_id"
    by (cases "user ''userId''") (simp_all add: generate_plan_def)
  obtain outcome s1 where b: "behavior_model s user_id = (outcome, s1)"
    by (cases "behavior_model s user_id") blast
  define k where "k = (case outcome of Inr v \<Rightarrow> py_or v (ObjStr ''Moderate'')
      | Inl e \<Rightarrow> ObjStr ''Moderate'')"
  from g obtain its where its: "base_get k moderate_items = Inr its" "items p = Some its"
    unfolding generate_plan_eq[where user=user and bm=behavior_model and s=s, OF u b]
      k_def[symmetric]
    by (cases "base_get k moderate_items")
      (auto simp: Let_def plan_doc_def split: if_splits)
  with base_get_template[OF its(1)]
  show "items p = Some low_items \<or> items p = Some moderate_items \<or> items p = Some high_items"
    by auto
next
  show "\<not> truthy ObjNone" by simp
  show "\<not> truthy (ObjStr [])" by simp
next
  fix user_id v s'
  assume h: "user ''userId'' = Some user_id \<and> behavior_model s user_id = (Inr v, s') \<and> available db"
  assume hv: "\<not> truthy v \<or> (\<forall>xs. v \<noteq> ObjList xs)"
  define k where "k = py_or v (ObjStr ''Moderate'')"
  have kk: "\<forall>xs. k \<noteq> ObjList xs"
    using hv by (auto simp: k_def py_or_def)
  obtain its where its: "base_get k moderate_items = Inr its"
    using kk by (cases k) auto
  define p where "p = plan_doc user_id its (today clk) ''Proposed''"
  have g: "generate_plan user behavior_model s db clk =
      Inr (p, db\<lparr>plans := upsert p (plans db)\<rparr>, s')"
    using h its
    by (simp add: generate_plan_eq[where user=user and bm=behavior_model and s=s
          and outcome="Inr v" and s'=s'] k_def[symmetric] p_def Let_def)
  have i: "items p = Some its" by (simp add: p_def plan_doc_def)
  have falsy: "\<not> truthy v \<longrightarrow>
      py_or v (ObjStr ''Moderate'') = ObjStr ''Moderate'' \<and> items p = Some moderate_items"
    using i its by (auto simp: k_def py_or_falsy base_def)
  have other: "truthy v \<and> v \<noteq> ObjStr ''Low'' \<and> v \<noteq> ObjStr ''Moderate'' \<and> v \<noteq> ObjStr ''High''
      \<longrightarrow> items p = Some moderate_items"
  proof
    assume t: "truthy v \<and> v \<noteq> ObjStr ''Low'' \<and> v \<noteq> ObjStr ''Moderate'' \<and> v \<noteq> ObjStr ''High''"
    then have "k = v" by (simp add: k_def py_or_truthy)
    with t kk have "base_get k moderate_items = Inr moderate_items"
      by (simp add: base_get_hashable)
    with its i show "items p = Some moderate_items" by simp
  qed
  have tiers: "v = ObjStr ''Low'' \<longrightarrow> items p = Some low_items"
    "v = ObjStr ''Moderate'' \<longrightarrow> items p = Some moderate_items"
    "v = ObjStr ''High'' \<longrightarrow> items p = Some high_items"
    using i its by (auto simp: k_def py_or_def base_def)
  show "\<exists>p db'. generate_plan user behavior_model s db clk = Inr (p, db', s')
      \<and> (\<not> truthy v \<longrightarrow>
            py_or v (ObjStr ''Moderate'') = ObjStr ''Moderate''
          \<and> items p = Some moderate_items)
      \<and> (truthy v \<and> v \<noteq> ObjStr ''Low'' \<and> v \<noteq> ObjStr ''Moderate''
            \<and> v \<noteq> ObjStr ''High'' \<longrightarrow> items p = Some moderate_items)
      \<and> (v = ObjStr ''Low'' \<longrightarrow> items p = Some low_items)
      \<and> (v = ObjStr ''Moderate'' \<longrightarrow> items p = Some moderate_items)
      \<and> (v = ObjStr ''High'' \<longrightarrow> items p = Some high_items)"
    apply (rule exI[of _ p], rule exI[of _ "db\<lparr>plans := upsert p (plans db)\<rparr>"])
    using g falsy other tiers by blast
next
  fix user_id v s' xs
  assume h: "user ''userId'' = Some user_id \<and> behavior_model s user_id = (Inr v, s') \<and> available db"
  assume l: "v = ObjList xs \<and> xs \<noteq> []"
  show "generate_plan user behavior_model s db clk = Inl TypeError"
    using h l
    by (simp add: generate_plan_eq[where user=user and bm=behavior_model and s=s
          and outcome="Inr v" and s'=s'] py_or_def)
qed

theorem generate_plan_template_witness:
  "demo_user ''userId'' = Some ''u1''
   \<and> odd_model 0 ''u1'' = (Inr (ObjStr ''Extreme''), 1)
   \<and> truthy (ObjStr ''Extreme'')
   \<and> available demo_db
   \<and> generate_plan demo_user odd_model 0 demo_db demo_clock =
       Inr (plan_doc ''u1'' moderate_items 100 ''Proposed'',
            demo_db\<lparr>plans := upsert (plan_doc ''u1'' moderate_items 100 ''Proposed'') demo_plans\<rparr>,
            1)
   \<and> items (plan_doc ''u1'' moderate_items 100 ''Proposed'') = Some moderate_items
   \<and> generate_plan demo_user (\<lambda>calls u. (Inr ObjNone, Suc calls)) 0 demo_db demo_clock =
       Inr (plan_doc ''u1'' moderate_items 100 ''Proposed'',
            demo_db\<lparr>plans := upsert (plan_doc ''u1'' moderate_items 100 ''Proposed'') demo_plans\<rparr>,
            1)
   \<and> generate_plan demo_user (BehaviorModel (\<lambda>s. None) demo_clock) demo_db demo_db demo_clock =
       Inr (plan_doc ''u1'' moderate_items 100 ''Proposed'',
            demo_db\<lparr>plans := upsert (plan_doc ''u1'' moderate_items 100 ''Proposed'') demo_plans\<rparr>,
            demo_db)"
proof -
  have u: "demo_user ''userId'' = Some ''u1''" by (simp add: demo_user_def)
  have o: "odd_model 0 ''u1'' = (Inr (ObjStr ''Extreme''), 1)" by (simp add: odd_model_def)
  have n: "(\<lambda>calls u. (Inr ObjNone, Suc calls)) (0::nat) ''u1'' = (Inr ObjNone, 1)" by simp
  have b: "BehaviorModel (\<lambda>s. None) demo_clock demo_db ''u1'' = (Inr (ObjStr ''Moderate''), demo_db)"
    by (simp add: BehaviorModel_def demo_next_best_intensity)
  have t: "today demo_clock = 100" by (simp add: demo_clock_def)
  have pl: "plans demo_db = demo_plans" by (simp add: demo_db_def)
  have g1: "generate_plan demo_user odd_model 0 demo_db demo_clock =
       Inr (plan_doc ''u1'' moderate_items 100 ''Proposed'',
            demo_db\<lparr>plans := upsert (plan_doc ''u1'' moderate_items 100 ''Proposed'') demo_plans\<rparr>,
            1)"
    by (simp add: generate_plan_eq[where user=demo_user and bm=odd_model and s=0, OF u o]
        Let_def t pl demo_available py_or_def base_def)
  have g2: "generate_plan demo_user (\<lambda>calls u. (Inr ObjNone, Suc calls)) 0 demo_db demo_clock =
       Inr (plan_doc ''u1'' moderate_items 100 ''Proposed'',
            demo_db\<lparr>plans := upsert (plan_doc ''u1'' moderate_items 100 ''Proposed'') demo_plans\<rparr>,
            1)"
    by (simp add: generate_plan_eq[where user=demo_user
          and bm="\<lambda>calls u. (Inr ObjNone, Suc calls)" and s=0, OF u n]
        Let_def t pl demo_available py_or_def base_def)
  have g3: "generate_plan demo_user (BehaviorModel (\<lambda>s. None) demo_clock) demo_db demo_db demo_clock =
       Inr (plan_doc ''u1'' moderate_items 100 ''Proposed'',
            demo_db\<lparr>plans := upsert (plan_doc ''u1'' moderate_items 100 ''Proposed'') demo_plans\<rparr>,
            demo_db)"
    by (simp add: generate_plan_eq[where user=demo_user
          and bm="BehaviorModel (\<lambda>s. None) demo_clock" and s=demo_db, OF u b]
        Let_def t pl demo_available py_or_def base_def)
  have closed: "demo_user ''userId'' = Some ''u1''
   \<and> odd_model 0 ''u1'' = (Inr (ObjStr ''Extreme''), 1)
   \<and> truthy (ObjStr ''Extreme'')
   \<and> available demo_db
   \<and> generate_plan demo_user odd_model 0 demo_db demo_clock =
       Inr (plan_doc ''u1'' moderate_items 100 ''Proposed'',
            demo_db\<lparr>plans := upsert (plan_doc ''u1'' moderate_items 100 ''Proposed'') demo_plans\<rparr>,
            1)
   \<and> items (plan_doc ''u1'' moderate_items 100 ''Proposed'') = Some moderate_items
   \<and> generate_plan demo_user (\<lambda>calls u. (Inr ObjNone, Suc calls)) 0 demo_db demo_clock =
       Inr (plan_doc ''u1'' moderate_items 100 ''Proposed'',
            demo_db\<lparr>plans := upsert (plan_doc ''u1'' moderate_items 100 ''Proposed'') demo_plans\<rparr>,
            1)
   \<and> generate_plan demo_user (BehaviorModel (\<lambda>s. None) demo_clock) demo_db demo_db demo_clock =
       Inr (plan_doc ''u1'' moderate_items 100 ''Proposed'',
            demo_db\<lparr>plans := upsert (plan_doc ''u1'' moderate_items 100 ''Proposed'') demo_plans\<rparr>,
            demo_db)"
    using u o g1 g2 g3 demo_available by (simp add: plan_doc_def)
  show ?thesis
    by (insert generate_plan_template[of demo_user odd_model 0 demo_db demo_clock] closed)
      assumption
qed

section \<open>Samples without a number\<close>

lemma steps_db_cursor:
  "steps_cursor steps_db ''u1'' =
     [demo_sample ''u1'' ''Steps'' 1970000000 None,
      demo_sample ''u1'' ''Steps'' 1960000000 (Some PyNone),
      demo_sample ''u1'' ''Steps'' 1950000000 (Some (PyInt 4000))]"
  by (simp add: steps_cursor_def steps_db_def demo_sample_def)

lemma steps_db_values_cursor:
  "values_cursor steps_db demo_clock ''u1'' ''Steps'' 24 500 =
     [demo_sample ''u1'' ''Steps'' 1970000000 None,
      demo_sample ''u1'' ''Steps'' 1960000000 (Some PyNone),
      demo_sample ''u1'' ''Steps'' 1950000000 (Some (PyInt 4000))]"
  by (simp add: values_cursor_def find_sensordata_def demo_clock_def steps_db_def demo_sample_def)

lemma recent_steps_raises:
  "m \<in> set cursor \<Longrightarrow> sample_value m = Some v \<Longrightarrow> py_int str_int v = Inl e \<Longrightarrow>
     \<exists>e'. recent_steps str_int cursor = Inl e'"
  by (induction cursor) (auto split: option.splits sum.splits)

text \<open>
  C7. Every operation that reads the values of metric samples skips a sample whose
  value is missing or is not a number, and never raises because of it. This holds for
  \<^verbatim>\<open>_values\<close> (\<open>values_loop_numeric\<close>, \<open>fetch_values_available\<close>) and fails for
  \<^verbatim>\<open>generate_nudges\<close>: on a Steps sample whose value is \<^verbatim>\<open>None\<close> it raises
  \<^verbatim>\<open>TypeError\<close>, where \<^verbatim>\<open>_values\<close> on the same samples skips it.
\<close>

theorem generate_nudges_raises_on_null_value:
  "generate_nudges str_int ''u1'' behavior_model steps_db = Inl TypeError
   \<and> fetch_values str_float steps_db demo_clock ''u1'' ''Steps'' 24 500 = Inr [Finite 4000]"
proof
  have "recent_steps str_int (steps_cursor steps_db ''u1'') = Inl TypeError"
    by (simp add: steps_db_cursor) (simp add: demo_sample_def)
  then show "generate_nudges str_int ''u1'' behavior_model steps_db = Inl TypeError"
    by (simp add: generate_nudges_def) (simp add: steps_db_def)
next
  have av: "available steps_db" by (simp add: steps_db_def)
  show "fetch_values str_float steps_db demo_clock ''u1'' ''Steps'' 24 500 = Inr [Finite 4000]"
    unfolding fetch_values_available[OF av] steps_db_values_cursor
    by (simp add: float_of_value_def demo_sample_def)
qed

section \<open>The baselines\<close>

lemma numeric_values_append:
  "numeric_values sf (xs @ ys) = numeric_values sf xs @ numeric_values sf ys"
  by (induction xs) (auto split: sum.splits)

lemma numeric_values_replicate_Inr:
  "float_of_value sf d = Inr x \<Longrightarrow> numeric_values sf (replicate n d) = replicate n x"
  by (induction n) auto

lemma numeric_values_replicate_Inl:
  "float_of_value sf d = Inl e \<Longrightarrow> numeric_values sf (replicate n d) = []"
  by (induction n) auto

lemma mset_numeric_values:
  "mset (numeric_values sf xs) =
     (\<Sum>d \<in># mset xs. case float_of_value sf d of Inr x \<Rightarrow> {#x#} | Inl e \<Rightarrow> {#})"
  by (induction xs) (auto split: sum.splits)

lemma numeric_values_sort_key:
  "mset (numeric_values sf (sort_key f xs)) = mset (numeric_values sf xs)"
  by (simp add: mset_numeric_values)

lemma mean_permutation:
  assumes "mset xs = mset ys"
  shows "mean xs = mean ys"
proof -
  have s: "set xs = set ys" using assms by (rule mset_eq_setD)
  have l: "length xs = length ys" using assms by (rule mset_eq_length)
  have "mset (map finite_part xs) = mset (map finite_part ys)"
    using assms by (metis mset_map)
  then have "sum_list (map finite_part xs) = sum_list (map finite_part ys)"
    by (metis sum_mset_sum_list)
  with s l show ?thesis by (simp add: mean_def exact_mean_def)
qed

lemma baseline_of_permutation:
  assumes "mset vals = mset alls"
  shows "(if vals = [] then c else mean vals) = (if alls = [] then c else mean alls)"
proof -
  have "vals = [] \<longleftrightarrow> alls = []"
    using assms by (metis mset_zero_iff)
  with mean_permutation[OF assms] show ?thesis by simp
qed

lemma map_Finite_replicate_snoc:
  "replicate n (Finite x) @ [Finite y] = map Finite (replicate n x @ [y])"
  by simp

lemma crowded_window:
  "find_sensordata crowded_db ''u1'' ''HR'' (utcnow demo_clock - 24 * 14 * 3600000)
     = sensordata crowded_db"
  by (simp add: find_sensordata_def crowded_db_def demo_clock_def demo_sample_def)

lemma crowded_cursor:
  "values_cursor crowded_db demo_clock ''u1'' ''HR'' (24 * 14) 500
     = replicate 500 (demo_sample ''u1'' ''HR'' 1950000000 (Some (PyFloat (Finite 60))))"
proof -
  have w: "find_sensordata crowded_db ''u1'' ''HR'' (utcnow demo_clock - 24 * 14 * 3600000)
      = replicate 500 (demo_sample ''u1'' ''HR'' 1950000000 (Some (PyFloat (Finite 60))))
        @ [demo_sample ''u1'' ''HR'' 1900000000 (Some (PyFloat (Finite 561)))]"
    unfolding crowded_window by (simp add: crowded_db_def)
  have s: "sort_key (\<lambda>d. - ts d)
        (replicate 500 (demo_sample ''u1'' ''HR'' 1950000000 (Some (PyFloat (Finite 60))))
         @ [demo_sample ''u1'' ''HR'' 1900000000 (Some (PyFloat (Finite 561)))])
      = replicate 500 (demo_sample ''u1'' ''HR'' 1950000000 (Some (PyFloat (Finite 60))))
        @ [demo_sample ''u1'' ''HR'' 1900000000 (Some (PyFloat (Finite 561)))]"
    by (rule sort_key_id_if_sorted) (simp add: sorted_append demo_sample_def)
  show ?thesis
    unfolding values_cursor_def Let_def w s by simp
qed

lemma silent_window:
  "find_sensordata silent_db ''u1'' ''HR'' (utcnow demo_clock - 24 * 14 * 3600000)
     = sensordata silent_db"
  by (simp add: find_sensordata_def silent_db_def demo_clock_def demo_sample_def)

lemma silent_cursor:
  "values_cursor silent_db demo_clock ''u1'' ''HR'' (24 * 14) 500
     = replicate 500 (demo_sample ''u1'' ''HR'' 1950000000 (Some PyNone))"
proof -
  have w: "find_sensordata silent_db ''u1'' ''HR'' (utcnow demo_clock - 24 * 14 * 3600000)
      = replicate 500 (demo_sample ''u1'' ''HR'' 1950000000 (Some PyNone))
        @ [demo_sample ''u1'' ''HR'' 1900000000 (Some (PyFloat (Finite 61)))]"
    unfolding silent_window by (simp add: silent_db_def)
  have s: "sort_key (\<lambda>d. - ts d)
        (replicate 500 (demo_sample ''u1'' ''HR'' 1950000000 (Some PyNone))
         @ [demo_sample ''u1'' ''HR'' 1900000000 (Some (PyFloat (Finite 61)))])
      = replicate 500 (demo_sample ''u1'' ''HR'' 1950000000 (Some PyNone))
        @ [demo_sample ''u1'' ''HR'' 1900000000 (Some (PyFloat (Finite 61)))]"
    by (rule sort_key_id_if_sorted) (simp add: sorted_append demo_sample_def)
  show ?thesis
    unfolding values_cursor_def Let_def w s by simp
qed

lemma demo_float_of_value:
  "float_of_value sf (demo_sample u m t (Some (PyFloat x))) = Inr x"
  "float_of_value sf (demo_sample u m t (Some PyNone)) = Inl TypeError"
  by (simp_all add: float_of_value_def demo_sample_def)

text \<open>
  C8, as stated, fails: the baseline is not the mean of all numeric samples of the 14
  days. With 500 HR samples of value 60 and an older one of value 561, all in the
  window, the mean of the numeric samples is 61 and the baseline is 60. With 500 HR
  samples without a number and an older one of value 61, a numeric sample exists in
  the window and the baseline is the fallback 75.
\<close>

theorem baseline_ignores_samples_beyond_limit:
  "available crowded_db
   \<and> numeric_values (\<lambda>s. None)
        (find_sensordata crowded_db ''u1'' ''HR'' (utcnow demo_clock - 24 * 14 * 3600000))
       = map Finite (replicate 500 60 @ [561])
   \<and> sum_list (replicate 500 60 @ [561 :: real]) / real (length (replicate 500 (60 :: real) @ [561]))
       = 61
   \<and> mean (map Finite (replicate 500 60 @ [561])) = Finite 61
   \<and> fetch_values (\<lambda>s. None) crowded_db demo_clock ''u1'' ''HR'' (24 * 14) 500
       = Inr (map Finite (replicate 500 60))
   \<and> hr_baseline (map Finite (replicate 500 60)) = Finite 60
   \<and> available silent_db
   \<and> numeric_values (\<lambda>s. None)
        (find_sensordata silent_db ''u1'' ''HR'' (utcnow demo_clock - 24 * 14 * 3600000))
       = [Finite 61]
   \<and> fetch_values (\<lambda>s. None) silent_db demo_clock ''u1'' ''HR'' (24 * 14) 500 = Inr []
   \<and> hr_baseline [] = Finite 75"
proof (intro conjI)
  show av: "available crowded_db" by (simp add: crowded_db_def)
  show "numeric_values (\<lambda>s. None)
        (find_sensordata crowded_db ''u1'' ''HR'' (utcnow demo_clock - 24 * 14 * 3600000))
       = map Finite (replicate 500 60 @ [561])"
    unfolding crowded_window
    by (simp add: crowded_db_def numeric_values_append numeric_values_replicate_Inr
        demo_float_of_value)
  show "sum_list (replicate 500 60 @ [561 :: real])
        / real (length (replicate 500 (60 :: real) @ [561])) = 61"
    by (simp add: sum_list_replicate)
  show "mean (map Finite (replicate 500 60 @ [561])) = Finite 61"
    unfolding mean_Finite by (simp add: sum_list_replicate)
  show "fetch_values (\<lambda>s. None) crowded_db demo_clock ''u1'' ''HR'' (24 * 14) 500
       = Inr (map Finite (replicate 500 60))"
    unfolding fetch_values_available[OF av] crowded_cursor
    by (simp add: numeric_values_replicate_Inr demo_float_of_value)
  show "hr_baseline (map Finite (replicate 500 60)) = Finite 60"
    unfolding hr_baseline_def mean_Finite by (simp add: sum_list_replicate)
  show av': "available silent_db" by (simp add: silent_db_def)
  show "numeric_values (\<lambda>s. None)
        (find_sensordata silent_db ''u1'' ''HR'' (utcnow demo_clock - 24 * 14 * 3600000))
       = [Finite 61]"
    unfolding silent_window
    by (simp add: silent_db_def numeric_values_append
        numeric_values_replicate_Inl[OF demo_float_of_value(2)] demo_float_of_value)
  show "fetch_values (\<lambda>s. None) silent_db demo_clock ''u1'' ''HR'' (24 * 14) 500 = Inr []"
    unfolding fetch_values_available[OF av'] silent_cursor
    by (simp add: numeric_values_replicate_Inl[OF demo_float_of_value(2)])
  show "hr_baseline [] = Finite 75" by (simp add: hr_baseline_def)
qed

text \<open>
  C8, amended. The baseline of a signal is the arithmetic mean of the numeric values
  among the 500 most recent samples of the signal in the trailing 14 days, and the
  fallback (75.0 for HR, 70.0 for SleepScore) when none of these is numeric. When the
  window holds at most 500 samples of the signal these are all its samples, and the
  baseline is the mean of all numeric samples of the window, or the fallback when
  there is none.
\<close>

theorem baselines_of_fetched_samples:
  "available db \<Longrightarrow>
     (let since = utcnow clk - 24 * 14 * 3600000;
          hr_window = find_sensordata db u ''HR'' since;
          sleep_window = find_sensordata db u ''SleepScore'' since;
          hr_vals = numeric_values sf (take 500 (sort_key (\<lambda>d. - ts d) hr_window));
          sleep_vals = numeric_values sf (take 500 (sort_key (\<lambda>d. - ts d) sleep_window))
      in fetch_values sf db clk u ''HR'' (24 * 14) 500 = Inr hr_vals
       \<and> fetch_values sf db clk u ''SleepScore'' (24 * 14) 500 = Inr sleep_vals
       \<and> hr_baseline hr_vals = (if hr_vals = [] then Finite 75.0 else mean hr_vals)
       \<and> sleep_baseline sleep_vals = (if sleep_vals = [] then Finite 70.0 else mean sleep_vals)
       \<and> (\<forall>xs. hr_vals = map Finite xs \<longrightarrow>
             hr_baseline hr_vals =
               Finite (if xs = [] then 75.0 else sum_list xs / real (length xs)))
       \<and> (\<forall>xs. sleep_vals = map Finite xs \<longrightarrow>
             sleep_baseline sleep_vals =
               Finite (if xs = [] then 70.0 else sum_list xs / real (length xs)))
       \<and> (length hr_window \<le> 500 \<longrightarrow>
            hr_baseline hr_vals =
              (let alls = numeric_values sf hr_window
               in if alls = [] then Finite 75.0 else mean alls))
       \<and> (length sleep_window \<le> 500 \<longrightarrow>
            sleep_baseline sleep_vals =
              (let alls = numeric_values sf sleep_window
               in if alls = [] then Finite 70.0 else mean alls))
       \<and> (\<exists>hr_recent sleep_recent.
            readiness_score sf db clk u =
              Inr (readiness hr_vals sleep_vals hr_recent sleep_recent)))"
proof -
  assume av: "available db"
  define hw where "hw = find_sensordata db u ''HR'' (utcnow clk - 24 * 14 * 3600000)"
  define sw where "sw = find_sensordata db u ''SleepScore'' (utcnow clk - 24 * 14 * 3600000)"
  define hv where "hv = numeric_values sf (take 500 (sort_key (\<lambda>d. - ts d) hw))"
  define sv where "sv = numeric_values sf (take 500 (sort_key (\<lambda>d. - ts d) sw))"
  have ch: "values_cursor db clk u ''HR'' (24 * 14) 500 = take 500 (sort_key (\<lambda>d. - ts d) hw)"
    by (simp add: values_cursor_def hw_def Let_def)
  have cs: "values_cursor db clk u ''SleepScore'' (24 * 14) 500
      = take 500 (sort_key (\<lambda>d. - ts d) sw)"
    by (simp add: values_cursor_def sw_def Let_def)
  have f1: "fetch_values sf db clk u ''HR'' (24 * 14) 500 = Inr hv"
    unfolding fetch_values_available[OF av] ch hv_def ..
  have f2: "fetch_values sf db clk u ''SleepScore'' (24 * 14) 500 = Inr sv"
    unfolding fetch_values_available[OF av] cs sv_def ..
  have b1: "hr_baseline hv = (if hv = [] then Finite 75.0 else mean hv)"
    by (simp add: hr_baseline_def)
  have b2: "sleep_baseline sv = (if sv = [] then Finite 70.0 else mean sv)"
    by (simp add: sleep_baseline_def)
  have m1: "\<forall>xs. hv = map Finite xs \<longrightarrow>
      hr_baseline hv = Finite (if xs = [] then 75.0 else sum_list xs / real (length xs))"
    by (auto simp: hr_baseline_def mean_Finite)
  have m2: "\<forall>xs. sv = map Finite xs \<longrightarrow>
      sleep_baseline sv = Finite (if xs = [] then 70.0 else sum_list xs / real (length xs))"
    by (auto simp: sleep_baseline_def mean_Finite)
  have p1: "mset hv = mset (numeric_values sf hw)" if "length hw \<le> 500"
    using that by (simp add: hv_def numeric_values_sort_key)
  have p2: "mset sv = mset (numeric_values sf sw)" if "length sw \<le> 500"
    using that by (simp add: sv_def numeric_values_sort_key)
  have w1: "length hw \<le> 500 \<longrightarrow> hr_baseline hv =
      (let alls = numeric_values sf hw
       in if alls = [] then Finite 75.0 else mean alls)"
    unfolding b1 Let_def using baseline_of_permutation[OF p1] by blast
  have w2: "length sw \<le> 500 \<longrightarrow> sleep_baseline sv =
      (let alls = numeric_values sf sw
       in if alls = [] then Finite 70.0 else mean alls)"
    unfolding b2 Let_def using baseline_of_permutation[OF p2] by blast
  have r: "\<exists>hr_recent sleep_recent.
      readiness_score sf db clk u = Inr (readiness hv sv hr_recent sleep_recent)"
    unfolding readiness_score_available[OF av] ch cs hv_def sv_def by blast
  show ?thesis
    unfolding Let_def using f1 f2 b1 b2 m1 m2 w1 w2 r
    unfolding hv_def sv_def hw_def sw_def Let_def by (intro conjI) assumption+
qed

lemma demo_u1_hr_baseline_values:
  "fetch_values (\<lambda>s. None) demo_db demo_clock ''u1'' ''HR'' (24 * 14) 500
     = Inr [Finite 60, Finite 80]"
  unfolding fetch_values_available[OF demo_available]
  by (simp add: values_cursor_def demo_clock_def find_sensordata_def demo_db_def
      demo_sensordata_def demo_sample_def float_of_value_def)

lemma demo_u1_hr_window_length:
  "length (find_sensordata demo_db ''u1'' ''HR'' (utcnow demo_clock - 24 * 14 * 3600000)) = 4"
  by (simp add: find_sensordata_def demo_clock_def demo_db_def demo_sensordata_def
      demo_sample_def)

theorem baselines_of_fetched_samples_witness:
  "available demo_db
   \<and> length (find_sensordata demo_db ''u1'' ''HR'' (utcnow demo_clock - 24 * 14 * 3600000)) = 4
   \<and> fetch_values (\<lambda>s. None) demo_db demo_clock ''u1'' ''HR'' (24 * 14) 500
       = Inr [Finite 60, Finite 80]
   \<and> hr_baseline [Finite 60, Finite 80] = Finite 70
   \<and> fetch_values (\<lambda>s. None) demo_db demo_clock ''u3'' ''SleepScore'' (24 * 14) 500 = Inr []
   \<and> sleep_baseline [] = Finite 70"
proof -
  have closed: "available demo_db
   \<and> length (find_sensordata demo_db ''u1'' ''HR'' (utcnow demo_clock - 24 * 14 * 3600000)) = 4
   \<and> fetch_values (\<lambda>s. None) demo_db demo_clock ''u1'' ''HR'' (24 * 14) 500
       = Inr [Finite 60, Finite 80]
   \<and> hr_baseline [Finite 60, Finite 80] = Finite 70
   \<and> fetch_values (\<lambda>s. None) demo_db demo_clock ''u3'' ''SleepScore'' (24 * 14) 500 = Inr []
   \<and> sleep_baseline [] = Finite 70"
  proof (intro conjI)
    show "fetch_values (\<lambda>s. None) demo_db demo_clock ''u3'' ''SleepScore'' (24 * 14) 500 = Inr []"
      unfolding fetch_values_available[OF demo_available] demo_u3_values ..
  qed (simp_all only: demo_available demo_u1_hr_window_length demo_u1_hr_baseline_values,
       simp_all add: hr_baseline_def sleep_baseline_def mean_def exact_mean_def)
  show ?thesis
    by (insert baselines_of_fetched_samples[OF demo_available, of demo_clock "''u1''" "\<lambda>s. None"]
        closed) assumption
qed

end
